theory Spec2Isabelle
  imports Main "HOL-Library.Word"
begin

section \<open>The C data of \<^verbatim>\<open>cmd/iceberg/include/iceberg_metrics.h\<close>\<close>

text \<open>
  The header is a shim: seven \<^verbatim>\<open>extern\<close> declarations of functions exported by the Go
  runtime, seven \<^verbatim>\<open>static inline\<close> wrappers that call them, one typedef and a usage
  example in a comment. The Go side is not part of the header.

  \<^verbatim>\<open>uintptr_t\<close> is an unsigned integer of the platform's pointer width: a word of some
  width \<open>'w\<close>. A \<^verbatim>\<open>char *\<close> is either the null pointer or the address of a byte; the
  header never does arithmetic on one, so an address is a natural number.
\<close>

type_synonym 'w uintptr_t = "'w word"

text \<open>Line 14: \<^verbatim>\<open>typedef uintptr_t iceberg_metrics_property_map;\<close>\<close>

type_synonym 'w iceberg_metrics_property_map = "'w uintptr_t"

datatype c_ptr = NULL | Ptr nat

text \<open>
  A call into the Go runtime changes the state of the process and either returns or
  brings the process down (a panic on the Go side, an invalid memory access). A C
  function is a state transformer with a fault as one of its outcomes.
\<close>

datatype fault = InvalidHandle | InvalidPointer

type_synonym ('a, 's) call = "'s \<Rightarrow> fault + ('a \<times> 's)"

definition ret :: "'a \<Rightarrow> ('a, 's) call" where
  "ret x s = Inr (x, s)"

definition seq :: "('a, 's) call \<Rightarrow> ('a \<Rightarrow> ('b, 's) call) \<Rightarrow> ('b, 's) call" where
  "seq m f s = (case m s of Inl e \<Rightarrow> Inl e | Inr (x, s') \<Rightarrow> f x s')"

section \<open>The Go-exported entry points (lines 17 to 23)\<close>

text \<open>
  The header only declares them. The wrappers are verified against every implementation:
  the entry points are a record of functions over an arbitrary process state \<open>'s\<close>, with
  \<open>'u\<close> the type of \<^verbatim>\<open>uintptr_t\<close> values (always \<open>'w uintptr_t\<close> below).
\<close>

record ('u, 's) go_entry_points =
  new_property_map :: "('u, 's) call"
  delete_map :: "'u \<Rightarrow> (unit, 's) call"
  add_map_entry :: "'u \<Rightarrow> c_ptr \<Rightarrow> c_ptr \<Rightarrow> (unit, 's) call"
  install_prometheus_metrics_provider :: "'u \<Rightarrow> (c_ptr, 's) call"
  shutdown_metrics_provider :: "(c_ptr, 's) call"
  disable_metrics :: "(unit, 's) call"
  free_c_string :: "c_ptr \<Rightarrow> (unit, 's) call"

section \<open>The convenience wrappers (lines 28 to 65)\<close>

text \<open>
  \<^verbatim>\<open>return f(args);\<close> evaluates the call and returns its value; a \<^verbatim>\<open>void\<close> wrapper
  runs the call as a statement and returns at the end of its body.
\<close>

definition iceberg_metrics_new_property_map ::
  "('w::len uintptr_t, 's) go_entry_points \<Rightarrow> ('w iceberg_metrics_property_map, 's) call" where
  "iceberg_metrics_new_property_map E = seq (new_property_map E) (\<lambda>r. ret r)"

definition iceberg_metrics_delete_property_map ::
  "('w::len uintptr_t, 's) go_entry_points \<Rightarrow> 'w iceberg_metrics_property_map \<Rightarrow> (unit, 's) call" where
  "iceberg_metrics_delete_property_map E map' = seq (delete_map E map') (\<lambda>_. ret ())"

definition iceberg_metrics_set_property ::
  "('w::len uintptr_t, 's) go_entry_points \<Rightarrow> 'w iceberg_metrics_property_map \<Rightarrow> c_ptr \<Rightarrow> c_ptr
     \<Rightarrow> (unit, 's) call" where
  "iceberg_metrics_set_property E map' key val = seq (add_map_entry E map' key val) (\<lambda>_. ret ())"

definition iceberg_metrics_install_prometheus_provider ::
  "('w::len uintptr_t, 's) go_entry_points \<Rightarrow> 'w iceberg_metrics_property_map \<Rightarrow> (c_ptr, 's) call" where
  "iceberg_metrics_install_prometheus_provider E map' =
     seq (install_prometheus_metrics_provider E map') (\<lambda>r. ret r)"

definition iceberg_metrics_shutdown_provider ::
  "('w::len uintptr_t, 's) go_entry_points \<Rightarrow> (c_ptr, 's) call" where
  "iceberg_metrics_shutdown_provider E = seq (shutdown_metrics_provider E) (\<lambda>r. ret r)"

definition iceberg_metrics_disable ::
  "('w::len uintptr_t, 's) go_entry_points \<Rightarrow> (unit, 's) call" where
  "iceberg_metrics_disable E = seq (disable_metrics E) (\<lambda>_. ret ())"

definition iceberg_metrics_free_error ::
  "('w::len uintptr_t, 's) go_entry_points \<Rightarrow> c_ptr \<Rightarrow> (unit, 's) call" where
  "iceberg_metrics_free_error E err = seq (free_c_string E err) (\<lambda>_. ret ())"

section \<open>The usage example (comment, lines 67 to 80)\<close>

text \<open>
  The example as a program over the wrappers. A string literal is a non-null pointer
  into static storage: \<open>lit\<close> maps the literal's text to the pointer the compiler gives
  it. \<^verbatim>\<open>fprintf(stderr, fmt, err)\<close> belongs to the C library, not to the header; it is a
  parameter, and its \<^verbatim>\<open>int\<close> result is dropped as in the example.
\<close>

definition example_usage ::
  "('w::len uintptr_t, 's) go_entry_points \<Rightarrow> (c_ptr \<Rightarrow> c_ptr \<Rightarrow> (int, 's) call)
     \<Rightarrow> (string \<Rightarrow> c_ptr) \<Rightarrow> (unit, 's) call" where
  "example_usage E fprintf_stderr lit =
     seq (iceberg_metrics_new_property_map E) (\<lambda>props.
     seq (iceberg_metrics_set_property E props (lit ''service.name'') (lit ''iceberg-worker'')) (\<lambda>_.
     seq (iceberg_metrics_set_property E props (lit ''service.version'') (lit ''1.2.3'')) (\<lambda>_.
     seq (iceberg_metrics_set_property E props (lit ''prometheus.handler_path'') (lit ''/metrics'')) (\<lambda>_.
     seq (iceberg_metrics_install_prometheus_provider E props) (\<lambda>err.
     seq (iceberg_metrics_delete_property_map E props) (\<lambda>_.
     if err \<noteq> NULL then
       seq (fprintf_stderr (lit (''failed to install metrics: %s'' @ [CHR 0x0A])) err) (\<lambda>_.
       iceberg_metrics_free_error E err)
     else ret ()))))))"

section \<open>Observing the calls a program makes\<close>

text \<open>
  To see what reaches the Go side, the entry points are replaced by a recorder: every
  entry point appends the call with its actual arguments to a log and returns at once,
  \<open>h\<close> from \<^verbatim>\<open>new_property_map\<close> and \<open>r\<close> from the two functions that return a string.
\<close>

datatype 'u go_call =
    Call_new_property_map
  | Call_delete_map 'u
  | Call_add_map_entry 'u c_ptr c_ptr
  | Call_install_prometheus_metrics_provider 'u
  | Call_shutdown_metrics_provider
  | Call_disable_metrics
  | Call_free_c_string c_ptr

definition recorder :: "'u \<Rightarrow> c_ptr \<Rightarrow> ('u, 'u go_call list) go_entry_points" where
  "recorder h r =
     \<lparr> new_property_map = (\<lambda>log. Inr (h, log @ [Call_new_property_map])),
       delete_map = (\<lambda>m log. Inr ((), log @ [Call_delete_map m])),
       add_map_entry = (\<lambda>m k v log. Inr ((), log @ [Call_add_map_entry m k v])),
       install_prometheus_metrics_provider =
         (\<lambda>m log. Inr (r, log @ [Call_install_prometheus_metrics_provider m])),
       shutdown_metrics_provider = (\<lambda>log. Inr (r, log @ [Call_shutdown_metrics_provider])),
       disable_metrics = (\<lambda>log. Inr ((), log @ [Call_disable_metrics])),
       free_c_string = (\<lambda>p log. Inr ((), log @ [Call_free_c_string p])) \<rparr>"

text \<open>The C library call of the example, with no effect on the log.\<close>

definition silent_fprintf :: "c_ptr \<Rightarrow> c_ptr \<Rightarrow> (int, 's) call" where
  "silent_fprintf fmt arg = ret 0"

text \<open>The keys of the \<^verbatim>\<open>add_map_entry\<close> calls in a log, in order.\<close>

fun keys_set :: "'u go_call list \<Rightarrow> c_ptr list" where
  "keys_set [] = []"
| "keys_set (Call_add_map_entry m k v # cs) = k # keys_set cs"
| "keys_set (c # cs) = keys_set cs"

text \<open>
  A sequence of calls to the entry points, run one after the other from a state; the
  values the calls return are dropped, and the first fault ends the run.
\<close>

fun run_call :: "('u, 's) go_entry_points \<Rightarrow> 'u go_call \<Rightarrow> 's \<Rightarrow> fault + 's" where
  "run_call E Call_new_property_map s = map_sum id snd (new_property_map E s)"
| "run_call E (Call_delete_map m) s = map_sum id snd (delete_map E m s)"
| "run_call E (Call_add_map_entry m k v) s = map_sum id snd (add_map_entry E m k v s)"
| "run_call E (Call_install_prometheus_metrics_provider m) s
     = map_sum id snd (install_prometheus_metrics_provider E m s)"
| "run_call E Call_shutdown_metrics_provider s = map_sum id snd (shutdown_metrics_provider E s)"
| "run_call E Call_disable_metrics s = map_sum id snd (disable_metrics E s)"
| "run_call E (Call_free_c_string p) s = map_sum id snd (free_c_string E p s)"

fun run_calls :: "('u, 's) go_entry_points \<Rightarrow> 'u go_call list \<Rightarrow> 's \<Rightarrow> fault + 's" where
  "run_calls E [] s = Inr s"
| "run_calls E (c # cs) s = (case run_call E c s of Inl e \<Rightarrow> Inl e | Inr s' \<Rightarrow> run_calls E cs s')"

section \<open>The declarations of the header as data\<close>

text \<open>
  The types the header uses, its typedef (line 14), the prototypes of the seven
  \<^verbatim>\<open>extern\<close> declarations (lines 17 to 23) and the shape of the seven wrappers (lines 28
  to 65): name, parameter types, result type, the function called and the parameters
  passed to it, by position.
\<close>

datatype c_type = C_void | C_uintptr_t | C_char_ptr | C_const_char_ptr | C_named string

definition header_typedefs :: "(string \<times> c_type) list" where
  "header_typedefs = [(''iceberg_metrics_property_map'', C_uintptr_t)]"

fun resolve :: "c_type \<Rightarrow> c_type" where
  "resolve (C_named n) = (case map_of header_typedefs n of Some t \<Rightarrow> t | None \<Rightarrow> C_named n)"
| "resolve t = t"

record c_prototype =
  fn_name :: string
  fn_params :: "c_type list"
  fn_result :: c_type

definition go_exported_prototypes :: "c_prototype list" where
  "go_exported_prototypes =
     [ \<lparr> fn_name = ''new_property_map'', fn_params = [], fn_result = C_uintptr_t \<rparr>,
       \<lparr> fn_name = ''delete_map'', fn_params = [C_uintptr_t], fn_result = C_void \<rparr>,
       \<lparr> fn_name = ''add_map_entry'',
         fn_params = [C_uintptr_t, C_const_char_ptr, C_const_char_ptr], fn_result = C_void \<rparr>,
       \<lparr> fn_name = ''install_prometheus_metrics_provider'',
         fn_params = [C_uintptr_t], fn_result = C_char_ptr \<rparr>,
       \<lparr> fn_name = ''shutdown_metrics_provider'', fn_params = [], fn_result = C_char_ptr \<rparr>,
       \<lparr> fn_name = ''disable_metrics'', fn_params = [], fn_result = C_void \<rparr>,
       \<lparr> fn_name = ''free_c_string'', fn_params = [C_char_ptr], fn_result = C_void \<rparr> ]"

record c_wrapper =
  w_name :: string
  w_params :: "c_type list"
  w_result :: c_type
  w_callee :: string
  w_args :: "nat list"

definition inline_wrappers :: "c_wrapper list" where
  "inline_wrappers =
     [ \<lparr> w_name = ''iceberg_metrics_new_property_map'', w_params = [],
         w_result = C_named ''iceberg_metrics_property_map'',
         w_callee = ''new_property_map'', w_args = [] \<rparr>,
       \<lparr> w_name = ''iceberg_metrics_delete_property_map'',
         w_params = [C_named ''iceberg_metrics_property_map''], w_result = C_void,
         w_callee = ''delete_map'', w_args = [0] \<rparr>,
       \<lparr> w_name = ''iceberg_metrics_set_property'',
         w_params = [C_named ''iceberg_metrics_property_map'', C_const_char_ptr, C_const_char_ptr],
         w_result = C_void, w_callee = ''add_map_entry'', w_args = [0, 1, 2] \<rparr>,
       \<lparr> w_name = ''iceberg_metrics_install_prometheus_provider'',
         w_params = [C_named ''iceberg_metrics_property_map''], w_result = C_char_ptr,
         w_callee = ''install_prometheus_metrics_provider'', w_args = [0] \<rparr>,
       \<lparr> w_name = ''iceberg_metrics_shutdown_provider'', w_params = [], w_result = C_char_ptr,
         w_callee = ''shutdown_metrics_provider'', w_args = [] \<rparr>,
       \<lparr> w_name = ''iceberg_metrics_disable'', w_params = [], w_result = C_void,
         w_callee = ''disable_metrics'', w_args = [] \<rparr>,
       \<lparr> w_name = ''iceberg_metrics_free_error'', w_params = [C_char_ptr], w_result = C_void,
         w_callee = ''free_c_string'', w_args = [0] \<rparr> ]"

text \<open>
  The call in a wrapper's body is well typed against the prototype of the function it
  calls: the function is declared, every argument is a parameter of the wrapper, and the
  argument and result types agree with the prototype once typedef names are resolved.
\<close>

definition call_type_checks :: "c_wrapper \<Rightarrow> bool" where
  "call_type_checks w =
     (case find (\<lambda>p. fn_name p = w_callee w) go_exported_prototypes of
        None \<Rightarrow> False
      | Some p \<Rightarrow>
          list_all (\<lambda>i. i < length (w_params w)) (w_args w)
          \<and> map (\<lambda>i. resolve (w_params w ! i)) (w_args w) = fn_params p
          \<and> resolve (w_result w) = fn_result p)"

subsection \<open>The interface as the specification lists it\<close>

text \<open>
  The specification writes the interface as
  \<^verbatim>\<open>new_property_map() -> handle\<close>, \<^verbatim>\<open>delete_map(handle)\<close>,
  \<^verbatim>\<open>add_map_entry(handle, key, value)\<close>,
  \<^verbatim>\<open>install_prometheus_metrics_provider(handle) -> error-string-or-null\<close>,
  \<^verbatim>\<open>shutdown_metrics_provider() -> error-string-or-null\<close>, \<^verbatim>\<open>disable_metrics()\<close> and
  \<^verbatim>\<open>free_c_string(ptr)\<close>, keys and values being strings. \<open>documented_abi\<close> is that list;
  \<open>documented_shape\<close> reads a C prototype in the same vocabulary, typedef names resolved.
\<close>

datatype abi_kind =
  K_handle | K_string | K_string_pointer | K_error_string_or_null | K_nothing | K_undocumented

definition documented_abi :: "(string \<times> abi_kind list \<times> abi_kind) list" where
  "documented_abi =
     [ (''new_property_map'', [], K_handle),
       (''delete_map'', [K_handle], K_nothing),
       (''add_map_entry'', [K_handle, K_string, K_string], K_nothing),
       (''install_prometheus_metrics_provider'', [K_handle], K_error_string_or_null),
       (''shutdown_metrics_provider'', [], K_error_string_or_null),
       (''disable_metrics'', [], K_nothing),
       (''free_c_string'', [K_string_pointer], K_nothing) ]"

fun param_kind :: "c_type \<Rightarrow> abi_kind" where
  "param_kind C_uintptr_t = K_handle"
| "param_kind C_const_char_ptr = K_string"
| "param_kind C_char_ptr = K_string_pointer"
| "param_kind (C_named n) = K_undocumented"
| "param_kind C_void = K_nothing"

fun result_kind :: "c_type \<Rightarrow> abi_kind" where
  "result_kind C_uintptr_t = K_handle"
| "result_kind C_char_ptr = K_error_string_or_null"
| "result_kind C_const_char_ptr = K_string"
| "result_kind (C_named n) = K_undocumented"
| "result_kind C_void = K_nothing"

definition documented_shape :: "c_prototype \<Rightarrow> string \<times> abi_kind list \<times> abi_kind" where
  "documented_shape p =
     (fn_name p, map (\<lambda>t. param_kind (resolve t)) (fn_params p), result_kind (resolve (fn_result p)))"

section \<open>The Go side, from the specification\<close>

text \<open>
  The functions behind the seven entry points are Go code that the header does not
  contain. What follows is a model of them written from the specification's data model,
  interface conventions and error handling sections. Where the specification is silent
  the model does not decide: the open points are the fields of \<open>open_choices\<close>, and every
  result below holds for each way of settling them.
\<close>

text \<open>
  Modelled from the spec: the state the Go runtime keeps behind the entry points, which
  the header does not define. "A single process-wide active provider slot is implied
  (install/shutdown/disable operate on global state)".
\<close>

datatype provider_slot = NoProvider | PrometheusProvider | MetricsDisabled

text \<open>
  Modelled from the spec: the runtime state missing from the header. The property maps
  are "a mutable [...] mapping from string keys to string values, identified by a
  numeric handle"; \<open>c_strings\<close> is the memory readable as NUL-terminated strings;
  \<open>error_strings\<close> are the addresses of the "heap-allocated, caller-freed error
  message[s]" not yet released.
\<close>

record 'u runtime_state =
  property_maps :: "'u \<rightharpoonup> (string \<rightharpoonup> string)"
  c_strings :: "nat \<rightharpoonup> string"
  error_strings :: "nat set"
  active_provider :: provider_slot

text \<open>
  Modelled from the spec: what the specification leaves open about the missing Go
  implementation. It does not say which handle a new map gets, at which address an error
  message is allocated, when installing or shutting down fails and with which message
  (\<open>None\<close> is success), nor whether the free function accepts a null pointer.
\<close>

record 'u open_choices =
  handle_for_new_map :: "'u runtime_state \<Rightarrow> 'u"
  address_for_error :: "'u runtime_state \<Rightarrow> nat"
  exporter_start :: "(string \<rightharpoonup> string) option \<Rightarrow> provider_slot \<Rightarrow> string option"
  exporter_stop :: "provider_slot \<Rightarrow> string option"
  free_accepts_null :: bool

text \<open>
  Modelled from the spec: the missing Go function \<^verbatim>\<open>new_property_map\<close>. The map is
  "created by an allocation call" and starts empty.
\<close>

definition rt_new_property_map :: "'u open_choices \<Rightarrow> ('u, 'u runtime_state) call" where
  "rt_new_property_map ch s =
     (let h = handle_for_new_map ch s
      in Inr (h, s\<lparr>property_maps := (property_maps s)(h \<mapsto> Map.empty)\<rparr>))"

text \<open>
  Modelled from the spec: the missing Go function \<^verbatim>\<open>delete_map\<close>. The map is "explicitly
  destroyed by a delete call". The specification promises nothing for a handle that
  identifies no map: the model faults there.
\<close>

definition rt_delete_map :: "'u \<Rightarrow> (unit, 'u runtime_state) call" where
  "rt_delete_map h s =
     (case property_maps s h of
        None \<Rightarrow> Inl InvalidHandle
      | Some m \<Rightarrow> Inr ((), s\<lparr>property_maps := (property_maps s)(h := None)\<rparr>))"

text \<open>
  Modelled from the spec: how the missing Go side reads a C string argument: the string
  stored at the pointer, none at the null pointer or at an address that holds no string.
\<close>

definition read_c_string :: "'u runtime_state \<Rightarrow> c_ptr \<Rightarrow> string option" where
  "read_c_string s p = (case p of NULL \<Rightarrow> None | Ptr a \<Rightarrow> c_strings s a)"

text \<open>
  Modelled from the spec: the missing Go function \<^verbatim>\<open>add_map_entry\<close>. The map is "populated
  by repeated key/value insertions". The model faults on a handle that identifies no map
  and on a pointer that holds no string.
\<close>

definition rt_add_map_entry :: "'u \<Rightarrow> c_ptr \<Rightarrow> c_ptr \<Rightarrow> (unit, 'u runtime_state) call" where
  "rt_add_map_entry h key val s =
     (case property_maps s h of
        None \<Rightarrow> Inl InvalidHandle
      | Some m \<Rightarrow>
          (case read_c_string s key of
             None \<Rightarrow> Inl InvalidPointer
           | Some k \<Rightarrow>
               (case read_c_string s val of
                  None \<Rightarrow> Inl InvalidPointer
                | Some v \<Rightarrow> Inr ((), s\<lparr>property_maps := (property_maps s)(h \<mapsto> m(k \<mapsto> v))\<rparr>))))"

text \<open>
  Modelled from the spec: how the missing Go side reports a failure: "a heap-allocated,
  caller-freed error message". The message is stored at a non-null address, which is
  recorded as an error string the caller has to release, and returned.
\<close>

definition return_error :: "'u open_choices \<Rightarrow> string \<Rightarrow> (c_ptr, 'u runtime_state) call" where
  "return_error ch msg s =
     (let a = address_for_error ch s
      in Inr (Ptr a, s\<lparr>c_strings := (c_strings s)(a \<mapsto> msg),
                         error_strings := insert a (error_strings s)\<rparr>))"

text \<open>
  Modelled from the spec: the missing Go function \<^verbatim>\<open>install_prometheus_metrics_provider\<close>.
  The map is "consumed (read-only) by the provider-install call"; the function returns
  "null on success and a heap-allocated, caller-freed error message on failure". Success
  fills the provider slot; a failure leaves it as it was.
\<close>

definition rt_install_prometheus_metrics_provider ::
  "'u open_choices \<Rightarrow> 'u \<Rightarrow> (c_ptr, 'u runtime_state) call" where
  "rt_install_prometheus_metrics_provider ch h s =
     (case exporter_start ch (property_maps s h) (active_provider s) of
        None \<Rightarrow> Inr (NULL, s\<lparr>active_provider := PrometheusProvider\<rparr>)
      | Some msg \<Rightarrow> return_error ch msg s)"

text \<open>
  Modelled from the spec: the missing Go function \<^verbatim>\<open>shutdown_metrics_provider\<close>, with the
  same convention: null on success, which empties the provider slot, an error message on
  failure.
\<close>

definition rt_shutdown_metrics_provider :: "'u open_choices \<Rightarrow> (c_ptr, 'u runtime_state) call" where
  "rt_shutdown_metrics_provider ch s =
     (case exporter_stop ch (active_provider s) of
        None \<Rightarrow> Inr (NULL, s\<lparr>active_provider := NoProvider\<rparr>)
      | Some msg \<Rightarrow> return_error ch msg s)"

text \<open>
  Modelled from the spec: the missing Go function \<^verbatim>\<open>disable_metrics\<close>, which "operate[s]
  on global state" and returns nothing.
\<close>

definition rt_disable_metrics :: "(unit, 'u runtime_state) call" where
  "rt_disable_metrics s = Inr ((), s\<lparr>active_provider := MetricsDisabled\<rparr>)"

text \<open>
  Modelled from the spec: the missing Go function \<^verbatim>\<open>free_c_string\<close>, "the dedicated free
  function [that] must be used to release" an error message. It releases an error string
  that is still allocated and faults on any other address; the null pointer is an open
  choice.
\<close>

definition rt_free_c_string :: "'u open_choices \<Rightarrow> c_ptr \<Rightarrow> (unit, 'u runtime_state) call" where
  "rt_free_c_string ch p s =
     (case p of
        NULL \<Rightarrow> if free_accepts_null ch then Inr ((), s) else Inl InvalidPointer
      | Ptr a \<Rightarrow>
          if a \<in> error_strings s
          then Inr ((), s\<lparr>c_strings := (c_strings s)(a := None),
                           error_strings := error_strings s - {a}\<rparr>)
          else Inl InvalidPointer)"

text \<open>
  Modelled from the spec: the missing Go runtime as one implementation of the seven
  entry points the header declares.
\<close>

definition go_runtime :: "'u open_choices \<Rightarrow> ('u, 'u runtime_state) go_entry_points" where
  "go_runtime ch =
     \<lparr> new_property_map = rt_new_property_map ch,
       delete_map = rt_delete_map,
       add_map_entry = rt_add_map_entry,
       install_prometheus_metrics_provider = rt_install_prometheus_metrics_provider ch,
       shutdown_metrics_provider = rt_shutdown_metrics_provider ch,
       disable_metrics = rt_disable_metrics,
       free_c_string = rt_free_c_string ch \<rparr>"

text \<open>
  Creating a property map and destroying it, through the wrappers, and a program run
  \<open>n\<close> times in a row.
\<close>

definition create_then_delete :: "('w::len uintptr_t, 's) go_entry_points \<Rightarrow> (unit, 's) call" where
  "create_then_delete E =
     seq (iceberg_metrics_new_property_map E) (\<lambda>props. iceberg_metrics_delete_property_map E props)"

fun repeated :: "nat \<Rightarrow> (unit, 's) call \<Rightarrow> (unit, 's) call" where
  "repeated 0 prog = ret ()"
| "repeated (Suc n) prog = seq prog (\<lambda>_. repeated n prog)"

text \<open>
  Modelled from the spec: what "a heap-allocated, caller-freed error message" is in the
  state of the missing runtime: a non-null pointer to an error string that is still
  allocated and holds the message.
\<close>

definition owned_error_string :: "'u runtime_state \<Rightarrow> c_ptr \<Rightarrow> string \<Rightarrow> bool" where
  "owned_error_string s p msg =
     (case p of NULL \<Rightarrow> False | Ptr a \<Rightarrow> a \<in> error_strings s \<and> c_strings s a = Some msg)"

text \<open>
  Sample data on a 64-bit platform: a way of settling the open choices in which
  installing and shutting down end with the given outcome, and a state with one property
  map, under the handle 1.
\<close>

definition sample_choices :: "string option \<Rightarrow> 64 word open_choices" where
  "sample_choices outcome =
     \<lparr> handle_for_new_map = (\<lambda>s. 1), address_for_error = (\<lambda>s. 4096),
       exporter_start = (\<lambda>props slot. outcome),
       exporter_stop = (\<lambda>slot. outcome),
       free_accepts_null = False \<rparr>"

definition refusing_exporter :: "64 word open_choices" where
  "refusing_exporter = sample_choices (Some ''address already in use'')"

definition one_map_state :: "64 word runtime_state" where
  "one_map_state =
     \<lparr> property_maps = [1 \<mapsto> [''service.name'' \<mapsto> ''iceberg-worker'']],
       c_strings = Map.empty, error_strings = {}, active_provider = NoProvider \<rparr>"

section \<open>The wrappers against the entry points\<close>

lemma seq_ret: "seq m (\<lambda>r. ret r) = m"
proof
  fix s
  show "seq m (\<lambda>r. ret r) s = m s"
    by (cases "m s") (auto simp: seq_def ret_def)
qed

lemma seq_ret_unit: "seq m (\<lambda>_. ret ()) = m"
proof
  fix s
  show "seq m (\<lambda>_. ret ()) s = m s"
    by (cases "m s") (auto simp: seq_def ret_def)
qed

lemmas wrapper_defs =
  iceberg_metrics_new_property_map_def iceberg_metrics_delete_property_map_def
  iceberg_metrics_set_property_def iceberg_metrics_install_prometheus_provider_def
  iceberg_metrics_shutdown_provider_def iceberg_metrics_disable_def
  iceberg_metrics_free_error_def

lemmas wrapper_simps = wrapper_defs seq_ret seq_ret_unit

lemma recorder_sel:
  "new_property_map (recorder h r) = (\<lambda>log. Inr (h, log @ [Call_new_property_map]))"
  "delete_map (recorder h r) = (\<lambda>m log. Inr ((), log @ [Call_delete_map m]))"
  "add_map_entry (recorder h r) = (\<lambda>m k v log. Inr ((), log @ [Call_add_map_entry m k v]))"
  "install_prometheus_metrics_provider (recorder h r)
     = (\<lambda>m log. Inr (r, log @ [Call_install_prometheus_metrics_provider m]))"
  "shutdown_metrics_provider (recorder h r)
     = (\<lambda>log. Inr (r, log @ [Call_shutdown_metrics_provider]))"
  "disable_metrics (recorder h r) = (\<lambda>log. Inr ((), log @ [Call_disable_metrics]))"
  "free_c_string (recorder h r) = (\<lambda>p log. Inr ((), log @ [Call_free_c_string p]))"
  by (simp_all add: recorder_def)

text \<open>
  Claim C1. Whatever the Go side implements, each of the seven wrappers returns, from
  every state and for every argument, exactly the outcome of its entry point called on
  the same arguments: the same value, the same final state, or the same fault. A wrapper
  that validated, branched or computed anything would differ from its entry point for
  some implementation.
\<close>

theorem wrappers_forward:
  fixes E :: "('w::len uintptr_t, 's) go_entry_points"
  shows "iceberg_metrics_new_property_map E s = new_property_map E s
    \<and> iceberg_metrics_delete_property_map E m s = delete_map E m s
    \<and> iceberg_metrics_set_property E m key val s = add_map_entry E m key val s
    \<and> iceberg_metrics_install_prometheus_provider E m s
          = install_prometheus_metrics_provider E m s
    \<and> iceberg_metrics_shutdown_provider E s = shutdown_metrics_provider E s
    \<and> iceberg_metrics_disable E s = disable_metrics E s
    \<and> iceberg_metrics_free_error E p s = free_c_string E p s"
  by (simp add: wrapper_simps)

text \<open>
  Claim C8. For every pointer, \<^verbatim>\<open>iceberg_metrics_free_error\<close> is \<^verbatim>\<open>free_c_string\<close> on the
  same pointer. The null pointer is passed on as it is: the recorder sees the call with
  \<open>NULL\<close>, the wrapper faults on \<open>NULL\<close> exactly when the implementation of
  \<^verbatim>\<open>free_c_string\<close> does, and an implementation that rejects the null pointer makes the
  wrapper fail on it.
\<close>

theorem free_error_forwards_null:
  fixes E :: "('w::len uintptr_t, 's) go_entry_points"
    and h :: "'w uintptr_t"
  shows "iceberg_metrics_free_error E p s = free_c_string E p s
       \<and> iceberg_metrics_free_error E NULL s = free_c_string E NULL s
       \<and> (\<exists>e. iceberg_metrics_free_error E NULL s = Inl e) = (\<exists>e. free_c_string E NULL s = Inl e)
       \<and> iceberg_metrics_free_error (recorder h r) NULL log
           = Inr ((), log @ [Call_free_c_string NULL])
       \<and> iceberg_metrics_free_error
             ((recorder h r)\<lparr>free_c_string :=
                 (\<lambda>q l. case q of NULL \<Rightarrow> Inl InvalidPointer | Ptr a \<Rightarrow> Inr ((), l))\<rparr>) NULL log
           = Inl InvalidPointer"
  by (simp add: wrapper_simps recorder_sel)

text \<open>
  Claim C9. \<^verbatim>\<open>iceberg_metrics_set_property\<close>, \<^verbatim>\<open>iceberg_metrics_delete_property_map\<close> and
  \<^verbatim>\<open>iceberg_metrics_install_prometheus_provider\<close> pass every handle and every pointer on
  unchanged, for every implementation of the entry points. On the recorder, whose log is
  empty (no handle was ever returned by \<^verbatim>\<open>new_property_map\<close>), the calls arrive with the
  handle and the pointers given, null pointers included, and so does a call made after
  the handle was passed to \<^verbatim>\<open>delete_map\<close>.
\<close>

theorem arguments_not_validated:
  fixes E :: "('w::len uintptr_t, 's) go_entry_points"
    and h h0 :: "'w iceberg_metrics_property_map"
  shows "iceberg_metrics_set_property E h key val s = add_map_entry E h key val s
       \<and> iceberg_metrics_set_property E h NULL NULL s = add_map_entry E h NULL NULL s
       \<and> iceberg_metrics_delete_property_map E h s = delete_map E h s
       \<and> iceberg_metrics_install_prometheus_provider E h s
           = install_prometheus_metrics_provider E h s
       \<and> iceberg_metrics_set_property (recorder h0 r) h key val []
           = Inr ((), [Call_add_map_entry h key val])
       \<and> iceberg_metrics_set_property (recorder h0 r) h NULL NULL []
           = Inr ((), [Call_add_map_entry h NULL NULL])
       \<and> iceberg_metrics_delete_property_map (recorder h0 r) h []
           = Inr ((), [Call_delete_map h])
       \<and> iceberg_metrics_install_prometheus_provider (recorder h0 r) h []
           = Inr (r, [Call_install_prometheus_metrics_provider h])
       \<and> seq (iceberg_metrics_delete_property_map (recorder h0 r) h)
             (\<lambda>_. iceberg_metrics_set_property (recorder h0 r) h key val) []
           = Inr ((), [Call_delete_map h, Call_add_map_entry h key val])"
  by (simp add: wrapper_simps recorder_sel seq_def)

text \<open>
  Claim C10. \<^verbatim>\<open>iceberg_metrics_property_map\<close> is a typedef name for \<^verbatim>\<open>uintptr_t\<close>: every
  \<^verbatim>\<open>uintptr_t\<close> value, 0 included, is accepted where a handle is expected and passed on;
  two handles are equal exactly when they are equal as integers; and the header keeps
  nothing that tells a live handle from a deleted one: after
  \<^verbatim>\<open>iceberg_metrics_delete_property_map(h)\<close> the same value \<open>h\<close> is still passed on by every
  wrapper, a second delete included.
\<close>

theorem handle_is_plain_integer:
  fixes E :: "('w::len uintptr_t, 's) go_entry_points"
    and h h' h0 :: "'w iceberg_metrics_property_map"
    and u :: "'w uintptr_t"
  shows "map_of header_typedefs ''iceberg_metrics_property_map'' = Some C_uintptr_t
       \<and> resolve (C_named ''iceberg_metrics_property_map'') = C_uintptr_t
       \<and> iceberg_metrics_delete_property_map E u s = delete_map E u s
       \<and> iceberg_metrics_delete_property_map E 0 s = delete_map E 0 s
       \<and> iceberg_metrics_install_prometheus_provider E 0 s
           = install_prometheus_metrics_provider E 0 s
       \<and> (h = h') = (unat h = unat h')
       \<and> seq (iceberg_metrics_delete_property_map E h)
             (\<lambda>_. iceberg_metrics_delete_property_map E h) s
           = seq (delete_map E h) (\<lambda>_. delete_map E h) s
       \<and> seq (iceberg_metrics_delete_property_map (recorder h0 r) h) (\<lambda>_.
           seq (iceberg_metrics_set_property (recorder h0 r) h key val) (\<lambda>_.
           seq (iceberg_metrics_install_prometheus_provider (recorder h0 r) h) (\<lambda>_.
           iceberg_metrics_delete_property_map (recorder h0 r) h))) []
           = Inr ((), [Call_delete_map h, Call_add_map_entry h key val,
                       Call_install_prometheus_metrics_provider h, Call_delete_map h])"
  by (simp add: wrapper_simps recorder_sel seq_def header_typedefs_def word_unat_eq_iff)

section \<open>The declared interface\<close>

text \<open>
  Claim C5. The header declares seven entry points, with distinct names, and read in the
  specification's vocabulary their prototypes are exactly the documented list, in order.
  Each one is called with its declared signature by the wrapper of the same position:
  the call in each wrapper is well typed against the prototype.
\<close>

theorem declared_entry_points:
  "map documented_shape go_exported_prototypes = documented_abi
   \<and> length go_exported_prototypes = 7
   \<and> distinct (map fn_name go_exported_prototypes)
   \<and> map w_callee inline_wrappers = map fn_name go_exported_prototypes
   \<and> map call_type_checks inline_wrappers = replicate 7 True"
  by (simp add: documented_shape_def go_exported_prototypes_def documented_abi_def
      inline_wrappers_def call_type_checks_def header_typedefs_def numeral_eq_Suc)

section \<open>The usage example\<close>

lemma example_usage_recorded:
  "example_usage (recorder h r) silent_fprintf lit [] =
     Inr ((), [Call_new_property_map,
               Call_add_map_entry h (lit ''service.name'') (lit ''iceberg-worker''),
               Call_add_map_entry h (lit ''service.version'') (lit ''1.2.3''),
               Call_add_map_entry h (lit ''prometheus.handler_path'') (lit ''/metrics''),
               Call_install_prometheus_metrics_provider h,
               Call_delete_map h]
              @ (if r \<noteq> NULL then [Call_free_c_string r] else []))"
  by (simp add: example_usage_def wrapper_simps seq_def ret_def recorder_sel silent_fprintf_def)

text \<open>
  Claim C7. The usage example sets exactly the keys \<^verbatim>\<open>service.name\<close>,
  \<^verbatim>\<open>service.version\<close> and \<^verbatim>\<open>prometheus.handler_path\<close>, in this order and before it
  installs the provider: these are the calls that reach the Go side. The header enforces
  none of them: for every implementation of the entry points the wrappers pass on any
  key and any map, and installing a map right after creating it, with no key set,
  reaches the entry point like any other call.
\<close>

theorem example_keys_not_enforced:
  fixes E :: "('w::len uintptr_t, 's) go_entry_points"
    and h m :: "'w iceberg_metrics_property_map"
  shows "example_usage (recorder h r) silent_fprintf lit [] =
           Inr ((), [Call_new_property_map,
                     Call_add_map_entry h (lit ''service.name'') (lit ''iceberg-worker''),
                     Call_add_map_entry h (lit ''service.version'') (lit ''1.2.3''),
                     Call_add_map_entry h (lit ''prometheus.handler_path'') (lit ''/metrics''),
                     Call_install_prometheus_metrics_provider h,
                     Call_delete_map h]
                    @ (if r \<noteq> NULL then [Call_free_c_string r] else []))
       \<and> (\<exists>log. example_usage (recorder h r) silent_fprintf lit [] = Inr ((), log)
              \<and> keys_set log = [lit ''service.name'', lit ''service.version'',
                                 lit ''prometheus.handler_path''])
       \<and> iceberg_metrics_set_property E m key val s = add_map_entry E m key val s
       \<and> iceberg_metrics_install_prometheus_provider E m s
           = install_prometheus_metrics_provider E m s
       \<and> seq (iceberg_metrics_new_property_map E)
             (\<lambda>props. iceberg_metrics_install_prometheus_provider E props) s
           = seq (new_property_map E) (\<lambda>props. install_prometheus_metrics_provider E props) s
       \<and> seq (iceberg_metrics_new_property_map (recorder h r))
             (\<lambda>props. iceberg_metrics_install_prometheus_provider (recorder h r) props) []
           = Inr (r, [Call_new_property_map, Call_install_prometheus_metrics_provider h])"
proof (intro conjI)
  show "\<exists>log. example_usage (recorder h r) silent_fprintf lit [] = Inr ((), log)
              \<and> keys_set log = [lit ''service.name'', lit ''service.version'',
                                 lit ''prometheus.handler_path'']"
    by (simp add: example_usage_recorded)
qed (simp_all add: example_usage_recorded wrapper_simps seq_def recorder_sel)

section \<open>The conventions of the Go side\<close>

lemma go_runtime_sel:
  "new_property_map (go_runtime ch) = rt_new_property_map ch"
  "delete_map (go_runtime ch) = rt_delete_map"
  "add_map_entry (go_runtime ch) = rt_add_map_entry"
  "install_prometheus_metrics_provider (go_runtime ch) = rt_install_prometheus_metrics_provider ch"
  "shutdown_metrics_provider (go_runtime ch) = rt_shutdown_metrics_provider ch"
  "disable_metrics (go_runtime ch) = rt_disable_metrics"
  "free_c_string (go_runtime ch) = rt_free_c_string ch"
  by (simp_all add: go_runtime_def)

lemma install_cases:
  "rt_install_prometheus_metrics_provider ch h s =
     (case exporter_start ch (property_maps s h) (active_provider s) of
        None \<Rightarrow> Inr (NULL, s\<lparr>active_provider := PrometheusProvider\<rparr>)
      | Some msg \<Rightarrow>
          Inr (Ptr (address_for_error ch s),
               s\<lparr>c_strings := (c_strings s)(address_for_error ch s \<mapsto> msg),
                 error_strings := insert (address_for_error ch s) (error_strings s)\<rparr>))"
  by (simp add: rt_install_prometheus_metrics_provider_def return_error_def Let_def
      split: option.split)

lemma shutdown_cases:
  "rt_shutdown_metrics_provider ch s =
     (case exporter_stop ch (active_provider s) of
        None \<Rightarrow> Inr (NULL, s\<lparr>active_provider := NoProvider\<rparr>)
      | Some msg \<Rightarrow>
          Inr (Ptr (address_for_error ch s),
               s\<lparr>c_strings := (c_strings s)(address_for_error ch s \<mapsto> msg),
                 error_strings := insert (address_for_error ch s) (error_strings s)\<rparr>))"
  by (simp add: rt_shutdown_metrics_provider_def return_error_def Let_def split: option.split)

text \<open>The model can fault: the safety results below are not true by lack of faults.\<close>

lemma delete_unknown_handle_faults:
  assumes "property_maps s h = None"
  shows "rt_delete_map h s = Inl InvalidHandle"
  using assms by (simp add: rt_delete_map_def)

lemma delete_twice_faults:
  "seq (rt_delete_map h) (\<lambda>_. rt_delete_map h) s = Inl InvalidHandle"
  by (cases "property_maps s h") (simp_all add: seq_def rt_delete_map_def)

lemma free_unknown_pointer_faults:
  assumes "a \<notin> error_strings s"
  shows "rt_free_c_string ch (Ptr a) s = Inl InvalidPointer"
  using assms by (simp add: rt_free_c_string_def)

text \<open>
  Claim C2. In the model of the Go side, \<^verbatim>\<open>install_prometheus_metrics_provider\<close> and
  \<^verbatim>\<open>shutdown_metrics_provider\<close>, called directly or through their wrappers, always
  return: the result is null exactly when the operation succeeded, and on failure it is a
  non-null pointer to a still allocated error string holding the message. There is no
  other outcome: no fault, and a failure changes neither the provider slot nor any
  property map.
\<close>

theorem error_string_convention:
  fixes ch :: "'w::len uintptr_t open_choices"
  shows "(\<exists>r s'. install_prometheus_metrics_provider (go_runtime ch) h s = Inr (r, s')
            \<and> iceberg_metrics_install_prometheus_provider (go_runtime ch) h s = Inr (r, s')
            \<and> (r = NULL) = (exporter_start ch (property_maps s h) (active_provider s) = None)
            \<and> (case exporter_start ch (property_maps s h) (active_provider s) of
                  None \<Rightarrow> r = NULL \<and> active_provider s' = PrometheusProvider
                | Some msg \<Rightarrow> owned_error_string s' r msg
                    \<and> active_provider s' = active_provider s)
            \<and> property_maps s' = property_maps s)
       \<and> (\<exists>r s'. shutdown_metrics_provider (go_runtime ch) s = Inr (r, s')
            \<and> iceberg_metrics_shutdown_provider (go_runtime ch) s = Inr (r, s')
            \<and> (r = NULL) = (exporter_stop ch (active_provider s) = None)
            \<and> (case exporter_stop ch (active_provider s) of
                  None \<Rightarrow> r = NULL \<and> active_provider s' = NoProvider
                | Some msg \<Rightarrow> owned_error_string s' r msg
                    \<and> active_provider s' = active_provider s)
            \<and> property_maps s' = property_maps s)"
proof (intro conjI)
  show "\<exists>r s'. install_prometheus_metrics_provider (go_runtime ch) h s = Inr (r, s')
            \<and> iceberg_metrics_install_prometheus_provider (go_runtime ch) h s = Inr (r, s')
            \<and> (r = NULL) = (exporter_start ch (property_maps s h) (active_provider s) = None)
            \<and> (case exporter_start ch (property_maps s h) (active_provider s) of
                  None \<Rightarrow> r = NULL \<and> active_provider s' = PrometheusProvider
                | Some msg \<Rightarrow> owned_error_string s' r msg
                    \<and> active_provider s' = active_provider s)
            \<and> property_maps s' = property_maps s"
    by (cases "exporter_start ch (property_maps s h) (active_provider s)")
       (simp_all add: wrapper_simps go_runtime_sel install_cases owned_error_string_def)
next
  show "\<exists>r s'. shutdown_metrics_provider (go_runtime ch) s = Inr (r, s')
            \<and> iceberg_metrics_shutdown_provider (go_runtime ch) s = Inr (r, s')
            \<and> (r = NULL) = (exporter_stop ch (active_provider s) = None)
            \<and> (case exporter_stop ch (active_provider s) of
                  None \<Rightarrow> r = NULL \<and> active_provider s' = NoProvider
                | Some msg \<Rightarrow> owned_error_string s' r msg
                    \<and> active_provider s' = active_provider s)
            \<and> property_maps s' = property_maps s"
    by (cases "exporter_stop ch (active_provider s)")
       (simp_all add: wrapper_simps go_runtime_sel shutdown_cases owned_error_string_def)
qed

lemma returned_pointer_valid:
  assumes "rt_install_prometheus_metrics_provider ch h s = Inr (r, s')
           \<or> rt_shutdown_metrics_provider ch s = Inr (r, s')"
  shows "r = NULL \<or> (\<exists>a. r = Ptr a \<and> a \<in> error_strings s')"
  using assms
  by (auto simp: install_cases shutdown_cases split: option.splits)

lemma free_valid_pointer:
  assumes "a \<in> error_strings s"
  shows "rt_free_c_string ch (Ptr a) s
           = Inr ((), s\<lparr>c_strings := (c_strings s)(a := None),
                         error_strings := error_strings s - {a}\<rparr>)"
  using assms by (simp add: rt_free_c_string_def)

lemma delete_keeps_error_strings:
  assumes "rt_delete_map m s = Inr ((), s')"
  shows "error_strings s' = error_strings s"
  using assms by (auto simp: rt_delete_map_def split: option.splits)

lemma run_call_keeps_error_string:
  assumes "a \<in> error_strings s" and "c \<noteq> Call_free_c_string (Ptr a)"
    and "run_call (go_runtime ch) c s = Inr s'"
  shows "a \<in> error_strings s'"
proof (cases c)
  case (Call_free_c_string p)
  with assms show ?thesis
    by (cases p) (auto simp: go_runtime_sel rt_free_c_string_def split: if_splits)
qed (use assms in \<open>auto simp: go_runtime_sel rt_new_property_map_def rt_delete_map_def
      rt_add_map_entry_def install_cases shutdown_cases rt_disable_metrics_def Let_def
      split: option.splits\<close>)

lemma run_calls_keep_error_string:
  assumes "a \<in> error_strings s" and "Call_free_c_string (Ptr a) \<notin> set cs"
    and "run_calls (go_runtime ch) cs s = Inr s'"
  shows "a \<in> error_strings s'"
  using assms
proof (induction cs arbitrary: s)
  case Nil
  then show ?case by simp
next
  case (Cons c cs)
  from Cons.prems(3) obtain s1 where step: "run_call (go_runtime ch) c s = Inr s1"
    and rest: "run_calls (go_runtime ch) cs s1 = Inr s'"
    by (auto split: sum.splits)
  from Cons.prems(1,2) step have "a \<in> error_strings s1"
    by (intro run_call_keeps_error_string[of a s c ch s1]) auto
  with Cons.IH[of s1] Cons.prems(2) rest show ?case by simp
qed

lemma free_releases:
  assumes "a \<in> error_strings s"
  shows "\<exists>s'. rt_free_c_string ch (Ptr a) s = Inr ((), s')
            \<and> a \<notin> error_strings s' \<and> c_strings s' a = None
            \<and> error_strings s' = error_strings s - {a}
            \<and> property_maps s' = property_maps s
            \<and> active_provider s' = active_provider s
            \<and> rt_free_c_string ch (Ptr a) s' = Inl InvalidPointer"
  using assms by (simp add: rt_free_c_string_def)

text \<open>
  Claim C3. In the model of the Go side, a pointer returned by
  \<^verbatim>\<open>install_prometheus_metrics_provider\<close> or \<^verbatim>\<open>shutdown_metrics_provider\<close> is null, or
  it is a valid pointer: the address of an allocated error string, which \<^verbatim>\<open>free_c_string\<close>,
  and so \<^verbatim>\<open>iceberg_metrics_free_error\<close>, releases without a fault. It can be released at
  once, after a property map has been deleted in between (the order of the header's
  usage example), and after any run of calls to the entry points that does not itself
  free the pointer. Releasing it removes the error string and nothing else: the
  address is no longer allocated and holds no string, the property maps and the
  provider slot are as before, and a second free of the same pointer faults.
\<close>

theorem returned_error_can_be_freed:
  fixes ch :: "'w::len uintptr_t open_choices"
  assumes "install_prometheus_metrics_provider (go_runtime ch) h s = Inr (r, s')
           \<or> shutdown_metrics_provider (go_runtime ch) s = Inr (r, s')"
  shows "r = NULL
         \<or> ((\<exists>s''. free_c_string (go_runtime ch) r s' = Inr ((), s'')
                 \<and> iceberg_metrics_free_error (go_runtime ch) r s' = Inr ((), s''))
             \<and> (\<forall>m s2. delete_map (go_runtime ch) m s' = Inr ((), s2) \<longrightarrow>
                   (\<exists>s3. iceberg_metrics_free_error (go_runtime ch) r s2 = Inr ((), s3)))
             \<and> (\<exists>a. r = Ptr a \<and> a \<in> error_strings s'
                 \<and> (\<forall>cs s2. Call_free_c_string r \<notin> set cs
                       \<and> run_calls (go_runtime ch) cs s' = Inr s2 \<longrightarrow>
                     (\<exists>s3. free_c_string (go_runtime ch) r s2 = Inr ((), s3)
                         \<and> iceberg_metrics_free_error (go_runtime ch) r s2 = Inr ((), s3)
                         \<and> a \<notin> error_strings s3 \<and> c_strings s3 a = None
                         \<and> error_strings s3 = error_strings s2 - {a}
                         \<and> property_maps s3 = property_maps s2
                         \<and> active_provider s3 = active_provider s2
                         \<and> free_c_string (go_runtime ch) r s3 = Inl InvalidPointer))))"
proof -
  from assms have "r = NULL \<or> (\<exists>a. r = Ptr a \<and> a \<in> error_strings s')"
    by (intro returned_pointer_valid[of ch h s r s']) (simp add: go_runtime_sel)
  then show ?thesis
  proof
    assume "r = NULL"
    then show ?thesis by simp
  next
    assume "\<exists>a. r = Ptr a \<and> a \<in> error_strings s'"
    then obtain a where r: "r = Ptr a" and a: "a \<in> error_strings s'" by blast
    have later: "\<exists>s3. free_c_string (go_runtime ch) r s2 = Inr ((), s3)
                         \<and> iceberg_metrics_free_error (go_runtime ch) r s2 = Inr ((), s3)
                         \<and> a \<notin> error_strings s3 \<and> c_strings s3 a = None
                         \<and> error_strings s3 = error_strings s2 - {a}
                         \<and> property_maps s3 = property_maps s2
                         \<and> active_provider s3 = active_provider s2
                         \<and> free_c_string (go_runtime ch) r s3 = Inl InvalidPointer"
      if "Call_free_c_string r \<notin> set cs" and "run_calls (go_runtime ch) cs s' = Inr s2"
      for cs s2
    proof -
      from a that have "a \<in> error_strings s2"
        by (intro run_calls_keep_error_string[of a s' cs ch s2]) (simp_all add: r)
      from free_releases[OF this, of ch] show ?thesis
        by (simp add: r wrapper_simps go_runtime_sel)
    qed
    have after_delete: "\<exists>s3. iceberg_metrics_free_error (go_runtime ch) r s2 = Inr ((), s3)"
      if "delete_map (go_runtime ch) m s' = Inr ((), s2)" for m s2
    proof -
      from that have "error_strings s2 = error_strings s'"
        by (simp add: go_runtime_sel delete_keeps_error_strings)
      with a show ?thesis
        by (simp add: r wrapper_simps go_runtime_sel free_valid_pointer)
    qed
    have now: "\<exists>s''. free_c_string (go_runtime ch) r s' = Inr ((), s'')
                 \<and> iceberg_metrics_free_error (go_runtime ch) r s' = Inr ((), s'')"
      using a by (simp add: r wrapper_simps go_runtime_sel free_valid_pointer)
    from now after_delete later r a show ?thesis by blast
  qed
qed

theorem returned_error_can_be_freed_witness:
  "install_prometheus_metrics_provider (go_runtime refusing_exporter) 1 one_map_state
     = Inr (Ptr 4096, one_map_state\<lparr>c_strings := [4096 \<mapsto> ''address already in use''],
                                      error_strings := {4096}\<rparr>)
   \<and> run_calls (go_runtime refusing_exporter) [Call_delete_map 1]
        (one_map_state\<lparr>c_strings := [4096 \<mapsto> ''address already in use''],
                        error_strings := {4096}\<rparr>)
       = Inr (one_map_state\<lparr>property_maps := Map.empty,
                             c_strings := [4096 \<mapsto> ''address already in use''],
                             error_strings := {4096}\<rparr>)
   \<and> (\<exists>s3. iceberg_metrics_free_error (go_runtime refusing_exporter) (Ptr 4096)
              (one_map_state\<lparr>property_maps := Map.empty,
                              c_strings := [4096 \<mapsto> ''address already in use''],
                              error_strings := {4096}\<rparr>) = Inr ((), s3)
          \<and> 4096 \<notin> error_strings s3 \<and> c_strings s3 4096 = None
          \<and> free_c_string (go_runtime refusing_exporter) (Ptr 4096) s3 = Inl InvalidPointer)"
proof -
  have run: "install_prometheus_metrics_provider (go_runtime refusing_exporter) 1 one_map_state
     = Inr (Ptr 4096, one_map_state\<lparr>c_strings := [4096 \<mapsto> ''address already in use''],
                                      error_strings := {4096}\<rparr>)"
    by (simp add: go_runtime_sel install_cases refusing_exporter_def sample_choices_def
        one_map_state_def)
  have del: "run_calls (go_runtime refusing_exporter) [Call_delete_map 1]
        (one_map_state\<lparr>c_strings := [4096 \<mapsto> ''address already in use''],
                        error_strings := {4096}\<rparr>)
       = Inr (one_map_state\<lparr>property_maps := Map.empty,
                             c_strings := [4096 \<mapsto> ''address already in use''],
                             error_strings := {4096}\<rparr>)"
    by (simp add: go_runtime_sel rt_delete_map_def one_map_state_def)
  let ?s1 = "one_map_state\<lparr>c_strings := [4096 \<mapsto> ''address already in use''],
                            error_strings := {4096}\<rparr>"
  let ?s2 = "one_map_state\<lparr>property_maps := Map.empty,
                            c_strings := [4096 \<mapsto> ''address already in use''],
                            error_strings := {4096}\<rparr>"
  have nofree: "Call_free_c_string (Ptr 4096) \<notin> set [Call_delete_map (1 :: 64 word)]"
    by simp
  from returned_error_can_be_freed[OF disjI1, OF run]
  obtain a where "Ptr 4096 = Ptr a"
    and later: "\<forall>cs s2. Call_free_c_string (Ptr 4096) \<notin> set cs
                  \<and> run_calls (go_runtime refusing_exporter) cs ?s1 = Inr s2 \<longrightarrow>
                (\<exists>s3. free_c_string (go_runtime refusing_exporter) (Ptr 4096) s2 = Inr ((), s3)
                    \<and> iceberg_metrics_free_error (go_runtime refusing_exporter) (Ptr 4096) s2
                        = Inr ((), s3)
                    \<and> a \<notin> error_strings s3 \<and> c_strings s3 a = None
                    \<and> error_strings s3 = error_strings s2 - {a}
                    \<and> property_maps s3 = property_maps s2
                    \<and> active_provider s3 = active_provider s2
                    \<and> free_c_string (go_runtime refusing_exporter) (Ptr 4096) s3
                        = Inl InvalidPointer)"
    by blast
  then have a: "a = 4096" by simp
  from later nofree del
  have "\<exists>s3. free_c_string (go_runtime refusing_exporter) (Ptr 4096) ?s2 = Inr ((), s3)
                    \<and> iceberg_metrics_free_error (go_runtime refusing_exporter) (Ptr 4096) ?s2
                        = Inr ((), s3)
                    \<and> a \<notin> error_strings s3 \<and> c_strings s3 a = None
                    \<and> error_strings s3 = error_strings ?s2 - {a}
                    \<and> property_maps s3 = property_maps ?s2
                    \<and> active_provider s3 = active_provider ?s2
                    \<and> free_c_string (go_runtime refusing_exporter) (Ptr 4096) s3
                        = Inl InvalidPointer"
    by blast
  with a run del show ?thesis by blast
qed

lemma install_keeps_maps:
  assumes "rt_install_prometheus_metrics_provider ch m s = Inr (r, s')"
  shows "property_maps s' = property_maps s"
  using assms by (auto simp: install_cases split: option.splits)

lemma delete_live_map:
  assumes "property_maps s m = Some props"
  shows "rt_delete_map m s = Inr ((), s\<lparr>property_maps := (property_maps s)(m := None)\<rparr>)"
  using assms by (simp add: rt_delete_map_def)

text \<open>
  Claim C4. In the model of the Go side, \<^verbatim>\<open>iceberg_metrics_install_prometheus_provider(m)\<close>
  leaves every property map as it was, whatever it returns. A map that \<open>m\<close> identified
  before the call is still there with the same content afterwards; it stays until the
  caller destroys it, and \<^verbatim>\<open>iceberg_metrics_delete_property_map(m)\<close> then succeeds and
  removes it.
\<close>

theorem install_leaves_map_to_caller:
  fixes ch :: "'w::len uintptr_t open_choices"
  assumes "iceberg_metrics_install_prometheus_provider (go_runtime ch) m s = Inr (r, s')"
  shows "property_maps s' = property_maps s
         \<and> (\<forall>props. property_maps s m = Some props \<longrightarrow>
               property_maps s' m = Some props
               \<and> (\<exists>s''. iceberg_metrics_delete_property_map (go_runtime ch) m s' = Inr ((), s'')
                       \<and> property_maps s'' m = None))"
proof -
  from assms have run: "rt_install_prometheus_metrics_provider ch m s = Inr (r, s')"
    by (simp add: wrapper_simps go_runtime_sel)
  then have same: "property_maps s' = property_maps s"
    by (rule install_keeps_maps)
  have "property_maps s' m = Some props
        \<and> (\<exists>s''. iceberg_metrics_delete_property_map (go_runtime ch) m s' = Inr ((), s'')
                \<and> property_maps s'' m = None)"
    if live: "property_maps s m = Some props" for props
  proof -
    from live same have live': "property_maps s' m = Some props" by simp
    then show ?thesis
      by (simp add: wrapper_simps go_runtime_sel delete_live_map)
  qed
  with same show ?thesis by blast
qed

theorem install_leaves_map_to_caller_witness:
  "(\<exists>s' s''. iceberg_metrics_install_prometheus_provider (go_runtime (sample_choices None)) 1
                 one_map_state = Inr (NULL, s')
        \<and> property_maps s' = property_maps one_map_state
        \<and> iceberg_metrics_delete_property_map (go_runtime (sample_choices None)) 1 s'
             = Inr ((), s'')
        \<and> property_maps s'' 1 = None)
   \<and> (\<exists>s' s''. iceberg_metrics_install_prometheus_provider (go_runtime refusing_exporter) 1
                 one_map_state = Inr (Ptr 4096, s')
        \<and> property_maps s' = property_maps one_map_state
        \<and> iceberg_metrics_delete_property_map (go_runtime refusing_exporter) 1 s'
             = Inr ((), s'')
        \<and> property_maps s'' 1 = None)"
proof -
  have live: "property_maps one_map_state 1 = Some [''service.name'' \<mapsto> ''iceberg-worker'']"
    by (simp add: one_map_state_def)
  have ok: "iceberg_metrics_install_prometheus_provider (go_runtime (sample_choices None)) 1
              one_map_state = Inr (NULL, one_map_state\<lparr>active_provider := PrometheusProvider\<rparr>)"
    by (simp add: wrapper_simps go_runtime_sel install_cases sample_choices_def)
  have bad: "iceberg_metrics_install_prometheus_provider (go_runtime refusing_exporter) 1
               one_map_state
             = Inr (Ptr 4096, one_map_state\<lparr>c_strings := [4096 \<mapsto> ''address already in use''],
                                              error_strings := {4096}\<rparr>)"
    by (simp add: wrapper_simps go_runtime_sel install_cases refusing_exporter_def
        sample_choices_def one_map_state_def)
  from install_leaves_map_to_caller[OF ok] install_leaves_map_to_caller[OF bad] live ok bad
  show ?thesis by blast
qed

lemma create_then_delete_run:
  "create_then_delete (go_runtime ch) s
     = Inr ((), s\<lparr>property_maps := (property_maps s)(handle_for_new_map ch s := None)\<rparr>)"
  by (simp add: create_then_delete_def wrapper_simps go_runtime_sel seq_def
      rt_new_property_map_def rt_delete_map_def Let_def)

lemma entry_points_create_delete_run:
  "seq (new_property_map (go_runtime ch)) (delete_map (go_runtime ch)) s
     = Inr ((), s\<lparr>property_maps := (property_maps s)(handle_for_new_map ch s := None)\<rparr>)"
  by (simp add: go_runtime_sel seq_def rt_new_property_map_def rt_delete_map_def Let_def)

lemma repeated_total:
  assumes "\<And>s. \<exists>s'. prog s = Inr ((), s')"
  shows "\<exists>s'. repeated n prog s = Inr ((), s')"
proof (induction n arbitrary: s)
  case 0
  show ?case by (simp add: ret_def)
next
  case (Suc n)
  from assms obtain s1 where "prog s = Inr ((), s1)" by blast
  moreover from Suc.IH obtain s2 where "repeated n prog s1 = Inr ((), s2)" by blast
  ultimately show ?case by (simp add: seq_def)
qed

text \<open>
  Claim C6. In the model of the Go side, creating a property map and destroying it, any
  number of times in a row and from any state, never faults, whether the calls go
  through the wrappers or to the entry points.
\<close>

theorem repeated_create_delete_no_fault:
  fixes ch :: "'w::len uintptr_t open_choices"
  shows "(\<exists>s'. repeated n (create_then_delete (go_runtime ch)) s = Inr ((), s'))
       \<and> (\<exists>s'. repeated n (seq (new_property_map (go_runtime ch)) (delete_map (go_runtime ch))) s
                  = Inr ((), s'))"
  by (intro conjI repeated_total)
     (simp_all add: create_then_delete_run entry_points_create_delete_run)

text \<open>
  The usage example on the model of the Go side: where its six property literals are
  readable strings, it runs to its end without a fault, whether the installation
  succeeds or not.
\<close>

lemma example_usage_runs:
  fixes ch :: "'w::len uintptr_t open_choices"
  assumes lits: "\<And>t. t \<in> {''service.name'', ''iceberg-worker'', ''service.version'', ''1.2.3'',
                        ''prometheus.handler_path'', ''/metrics''}
                  \<Longrightarrow> \<exists>a. lit t = Ptr a \<and> c_strings s a = Some t"
  shows "\<exists>s'. example_usage (go_runtime ch) silent_fprintf lit s = Inr ((), s')"
proof -
  define h where "h = handle_for_new_map ch s"
  define s1 where "s1 = s\<lparr>property_maps := (property_maps s)(h \<mapsto> Map.empty)\<rparr>"
  have new: "rt_new_property_map ch s = Inr (h, s1)"
    by (simp add: rt_new_property_map_def h_def s1_def Let_def)
  have add: "\<exists>p. rt_add_map_entry h (lit k) (lit v) s2
                 = Inr ((), s2\<lparr>property_maps := (property_maps s2)(h \<mapsto> p)\<rparr>)"
    if "c_strings s2 = c_strings s" and "property_maps s2 h \<noteq> None"
      and "\<exists>a. lit k = Ptr a \<and> c_strings s a = Some k"
      and "\<exists>b. lit v = Ptr b \<and> c_strings s b = Some v" for k v s2
    using that by (auto simp: rt_add_map_entry_def read_c_string_def)
  from add[of s1 "''service.name''" "''iceberg-worker''"]
  obtain p1 where a1: "rt_add_map_entry h (lit ''service.name'') (lit ''iceberg-worker'') s1
      = Inr ((), s1\<lparr>property_maps := (property_maps s1)(h \<mapsto> p1)\<rparr>)"
    using lits by (auto simp: s1_def)
  define s2 where "s2 = s1\<lparr>property_maps := (property_maps s1)(h \<mapsto> p1)\<rparr>"
  from add[of s2 "''service.version''" "''1.2.3''"]
  obtain p2 where a2: "rt_add_map_entry h (lit ''service.version'') (lit ''1.2.3'') s2
      = Inr ((), s2\<lparr>property_maps := (property_maps s2)(h \<mapsto> p2)\<rparr>)"
    using lits by (auto simp: s1_def s2_def)
  define s3 where "s3 = s2\<lparr>property_maps := (property_maps s2)(h \<mapsto> p2)\<rparr>"
  from add[of s3 "''prometheus.handler_path''" "''/metrics''"]
  obtain p3 where a3: "rt_add_map_entry h (lit ''prometheus.handler_path'') (lit ''/metrics'') s3
      = Inr ((), s3\<lparr>property_maps := (property_maps s3)(h \<mapsto> p3)\<rparr>)"
    using lits by (auto simp: s1_def s2_def s3_def)
  define s4 where "s4 = s3\<lparr>property_maps := (property_maps s3)(h \<mapsto> p3)\<rparr>"
  have live: "property_maps s4 h = Some p3" by (simp add: s4_def)
  show ?thesis
  proof (cases "exporter_start ch (property_maps s4 h) (active_provider s4)")
    case None
    then show ?thesis
      using new a1 a2 a3 live
      by (simp add: example_usage_def wrapper_simps go_runtime_sel seq_def ret_def
          install_cases rt_delete_map_def flip: s2_def s3_def s4_def)
  next
    case (Some msg)
    then show ?thesis
      using new a1 a2 a3 live
      by (simp add: example_usage_def wrapper_simps go_runtime_sel seq_def ret_def
          install_cases rt_delete_map_def rt_free_c_string_def silent_fprintf_def
          flip: s2_def s3_def s4_def)
  qed
qed

end
